theory Spec2Isabelle
  imports Complex_Main
begin

section \<open>Values exchanged with the runtime and the document store\<close>

text \<open>
  The service is two modules: \<^verbatim>\<open>db.js\<close> (connection manager) and \<^verbatim>\<open>server.js\<close>
  (request handler). Both sit on libraries that are not part of the repository: the
  JavaScript runtime (\<^verbatim>\<open>JSON.parse\<close>, \<^verbatim>\<open>URL\<close>, \<^verbatim>\<open>Date\<close>) and the MongoDB driver
  and server. What the handler does with their results is modelled from the source; what
  the libraries compute is either an input of the model or a small explicit model of the
  documented library behaviour, named as such below.

  A parsed JSON text is a value of type \<open>json\<close>. The key list of \<open>JObj\<close> is the own-property
  list of a JavaScript object, so its keys are pairwise distinct; numbers are IEEE doubles
  in the runtime and are idealised here as rationals (only the test for zero is used).
\<close>

datatype json =
    JNull
  | JBool bool
  | JNum rat
  | JStr string
  | JArr "json list"
  | JObj "(string \<times> json) list"

text \<open>The exception classes that can reach a \<^verbatim>\<open>catch\<close> of the two modules.\<close>

datatype error =
    TypeError string
  | SyntaxError string
  | Error string
  | BSONTypeError string
  | MongoServerError string
  | MongoNetworkError string

fun message :: "error \<Rightarrow> string" where
  "message (TypeError m) = m"
| "message (SyntaxError m) = m"
| "message (Error m) = m"
| "message (BSONTypeError m) = m"
| "message (MongoServerError m) = m"
| "message (MongoNetworkError m) = m"

text \<open>
  An identifier is the twelve bytes of an ObjectId. A stored item is its identifier together
  with its other fields, in field order; a field holds a JSON value that came from a request
  body, or a date (milliseconds of the clock) made by \<^verbatim>\<open>new Date()\<close>. Items of the
  collection whose \<^verbatim>\<open>_id\<close> is not an ObjectId cannot be addressed by any route and are
  left out of the model.
\<close>

type_synonym oid = "nat list"

datatype bson = Json json | Date nat

type_synonym document = "(string \<times> bson) list"

type_synonym item = "oid \<times> document"

text \<open>
  The value handed to \<^verbatim>\<open>JSON.stringify\<close> for the response body: a plain JSON value, the
  acknowledgement \<^verbatim>\<open>{acknowledged: true, insertedId}\<close> of \<^verbatim>\<open>insertOne\<close>, the
  \<^verbatim>\<open>value\<close> member of the result of \<^verbatim>\<open>findOneAndUpdate\<close> (a document or
  \<^verbatim>\<open>null\<close>), or the array of all documents.
\<close>

datatype payload =
    Plain json
  | InsertOneResult oid
  | Found "item option"
  | Listing "item list"

record response =
  status :: nat
  content_type :: string
  body :: payload

text \<open>
  A request as the handler reads it: \<^verbatim>\<open>req.method\<close> (the field \<open>req_method\<close>), the \<^verbatim>\<open>pathname\<close> that
  \<^verbatim>\<open>parse(req.url, true)\<close> yields, the outcome of
  \<^verbatim>\<open>new URL(req.url, `http://${req.headers.host}`).searchParams\<close> (the constructor throws a
  \<^verbatim>\<open>TypeError\<close> on an unusable URL or host; otherwise the parameters in order), the chunks
  of the body stream, and the clock reading at which the request arrived.
\<close>

record request =
  req_method :: string
  pathname :: string
  searchParams :: "string + (string \<times> string) list"
  chunks :: "string list"
  arrival :: nat

text \<open>
  What the surroundings contribute while one request is handled:
  \<^item> \<open>JSON_parse\<close>: the runtime's \<^verbatim>\<open>JSON.parse\<close>; \<open>Inl m\<close> is a \<^verbatim>\<open>SyntaxError\<close> with
    message \<open>m\<close>;
  \<^item> \<open>path_update\<close>: what the server does with a \<^verbatim>\<open>$set\<close> whose field names are not all
    plain top-level names (dotted paths, names starting with \<^verbatim>\<open>$\<close>, the empty name);
    \<open>Inl m\<close> is a server error with message \<open>m\<close>;
  \<^item> \<open>now\<close>: the clock reading of \<^verbatim>\<open>new Date()\<close>;
  \<^item> \<open>generated_id\<close>: the ObjectId the driver generates for the document of \<^verbatim>\<open>insertOne\<close>.
\<close>

record env =
  JSON_parse :: "string \<Rightarrow> string + json"
  path_update :: "document \<Rightarrow> (string \<times> json) list \<Rightarrow> string + document"
  now :: nat
  generated_id :: oid

text \<open>
  The process and the database it talks to: the module variable \<^verbatim>\<open>db\<close> of \<^verbatim>\<open>db.js\<close>
  (unset, or the handle of the named database), the items of the collection \<^verbatim>\<open>todos\<close>,
  the driver operations issued so far, and the console.
\<close>

datatype call =
    Find
  | InsertOne document
  | FindOneAndUpdate oid "(string \<times> json) list"
  | DeleteOne oid

datatype line = Info string | Failure string error

record world =
  db :: "string option"
  todos :: "item list"
  calls :: "call list"
  console :: "line list"

section \<open>Connection manager (\<^verbatim>\<open>db.js\<close>)\<close>

text \<open>\<^verbatim>\<open>let db;\<close> the module variable starts unset.\<close>

definition module_start :: "item list \<Rightarrow> world" where
  "module_start stored = \<lparr>db = None, todos = stored, calls = [], console = []\<rparr>"

text \<open>
  \<^verbatim>\<open>connectDB\<close>: the argument is the outcome of \<^verbatim>\<open>await client.connect()\<close>, \<open>None\<close> when
  it resolves and \<open>Some err\<close> when it rejects with \<open>err\<close>. The result is \<open>Inr\<close> of the new
  state when the returned promise resolves and \<open>Inl\<close> when it rejects.
\<close>

definition connectDB :: "error option \<Rightarrow> world \<Rightarrow> error + world" where
  "connectDB attempt w =
     (case attempt of
        None \<Rightarrow> Inr (w\<lparr>db := Some ''todo_api'', console := console w @ [Info ''MongoDB connected'']\<rparr>)
      | Some err \<Rightarrow> Inr (w\<lparr>console := console w @ [Failure ''DB connection error:'' err]\<rparr>))"

definition getDB :: "world \<Rightarrow> string option" where
  "getDB w = db w"

text \<open>Several calls of \<^verbatim>\<open>connectDB\<close> in a row; a rejected call would end the sequence.\<close>

fun connect_all :: "error option list \<Rightarrow> world \<Rightarrow> error + world" where
  "connect_all [] w = Inr w"
| "connect_all (a # as) w =
     (case connectDB a w of Inl err \<Rightarrow> Inl err | Inr w' \<Rightarrow> connect_all as w')"

section \<open>Request handler (\<^verbatim>\<open>server.js\<close>): helpers\<close>

text \<open>
  \<^verbatim>\<open>parseBody\<close>: the chunks are appended to \<^verbatim>\<open>body\<close>; at the end of the stream
  \<^verbatim>\<open>JSON.parse(body || "{}")\<close> is resolved, or its exception is the rejection.
\<close>

definition parseBody :: "env \<Rightarrow> request \<Rightarrow> error + json" where
  "parseBody env req =
     (let body = concat (chunks req)
      in case JSON_parse env (if body = [] then ''{}'' else body) of
           Inl m \<Rightarrow> Inl (SyntaxError m)
         | Inr data \<Rightarrow> Inr data)"

text \<open>
  \<^verbatim>\<open>data.title\<close>: reading a property of \<^verbatim>\<open>null\<close> throws; an object yields its own
  property or \<^verbatim>\<open>undefined\<close> (\<open>None\<close>); arrays, strings, numbers and booleans have no
  property of that name.
\<close>

fun get_title :: "json \<Rightarrow> error + json option" where
  "get_title JNull = Inl (TypeError ''Cannot read properties of null (reading 'title')'')"
| "get_title (JObj kvs) = Inr (map_of kvs ''title'')"
| "get_title _ = Inr None"

text \<open>JavaScript truthiness of a JSON value, and \<^verbatim>\<open>x || d\<close> on a property that may be undefined.\<close>

fun truthy :: "json \<Rightarrow> bool" where
  "truthy JNull = False"
| "truthy (JBool b) = b"
| "truthy (JNum n) = (n \<noteq> 0)"
| "truthy (JStr s) = (s \<noteq> [])"
| "truthy (JArr xs) = True"
| "truthy (JObj kvs) = True"

fun or_else :: "json option \<Rightarrow> json \<Rightarrow> json" where
  "or_else None d = d"
| "or_else (Some v) d = (if truthy v then v else d)"

text \<open>The object literal of lines 84 to 88, given \<^verbatim>\<open>data.title\<close> and the clock.\<close>

definition new_todo :: "json option \<Rightarrow> nat \<Rightarrow> document" where
  "new_todo title t =
     [(''title'', Json (or_else title (JStr ''Untitled''))),
      (''completed'', Json (JBool False)),
      (''createdAt'', Date t)]"

text \<open>
  \<^verbatim>\<open>{ ...data }\<close>: the own enumerable properties of the value. An object gives its
  properties, an array and a string give their elements under the decimal indices, every
  other value gives none.
\<close>

fun show_nat :: "nat \<Rightarrow> string" where
  "show_nat n =
     (if n < 10 then [char_of (48 + n)]
      else show_nat (n div 10) @ [char_of (48 + n mod 10)])"

declare show_nat.simps [simp del]

fun spread :: "json \<Rightarrow> (string \<times> json) list" where
  "spread (JObj kvs) = kvs"
| "spread (JArr xs) = zip (map show_nat [0..<length xs]) xs"
| "spread (JStr s) = zip (map show_nat [0..<length s]) (map (\<lambda>c. JStr [c]) s)"
| "spread _ = []"

text \<open>
  \<^verbatim>\<open>new ObjectId(id)\<close> on a string, as the driver generation does whose
  \<^verbatim>\<open>findOneAndUpdate\<close> returns \<^verbatim>\<open>{ value, ... }\<close>: a string of twelve bytes is taken
  as the bytes, a string of twenty-four hexadecimal digits is decoded, anything else throws.
\<close>

definition hex_digit :: "char \<Rightarrow> nat option" where
  "hex_digit c =
     (let n = (of_char c :: nat)
      in if 48 \<le> n \<and> n \<le> 57 then Some (n - 48)
         else if 97 \<le> n \<and> n \<le> 102 then Some (n - 87)
         else if 65 \<le> n \<and> n \<le> 70 then Some (n - 55)
         else None)"

definition hex_value :: "char \<Rightarrow> nat" where
  "hex_value c = (case hex_digit c of None \<Rightarrow> 0 | Some n \<Rightarrow> n)"

fun from_hex :: "string \<Rightarrow> nat list" where
  "from_hex (a # b # cs) = (16 * hex_value a + hex_value b) # from_hex cs"
| "from_hex cs = []"

definition ObjectId :: "string \<Rightarrow> error + oid" where
  "ObjectId s =
     (if length s = 12 then
        (if list_all (\<lambda>c. (of_char c :: nat) < 128) s then Inr (map of_char s)
         else Inl (BSONTypeError ''Argument passed in must be a string of 12 bytes''))
      else if length s = 24 \<and> list_all (\<lambda>c. hex_digit c \<noteq> None) s then Inr (from_hex s)
      else Inl (BSONTypeError
        ''Argument passed in must be a string of 12 bytes or a string of 24 hex characters or an integer''))"

section \<open>The driver operations on the collection\<close>

text \<open>
  The operations are those of the driver generation the handler is written against (the
  result of \<^verbatim>\<open>findOneAndUpdate\<close> has a \<^verbatim>\<open>value\<close> member) on a server of version 5.0 or
  later (an empty \<^verbatim>\<open>$set\<close> is accepted and changes nothing). Once connected, the server
  is taken to answer: an operation fails only for the reasons written out below.
\<close>

text \<open>
  \<^verbatim>\<open>insertOne\<close>: the driver gives the document the identifier it generated; the server
  refuses an identifier that is already stored (the unique index on \<^verbatim>\<open>_id\<close>), otherwise
  the item is appended and the acknowledgement carries the identifier.
\<close>

definition insertOne :: "oid \<Rightarrow> document \<Rightarrow> world \<Rightarrow> (error + oid) \<times> world" where
  "insertOne i d w =
     (let w' = w\<lparr>calls := calls w @ [InsertOne d]\<rparr>
      in if i \<in> set (map fst (todos w))
         then (Inl (MongoServerError ''E11000 duplicate key error collection: todo_api.todos index: _id_''), w')
         else (Inr i, w'\<lparr>todos := todos w @ [(i, d)]\<rparr>))"

text \<open>
  \<^verbatim>\<open>$set\<close> on one document. A plain name is a non-empty field name without a dot and
  without a leading dollar sign: the server overwrites that top-level field, or appends it
  when the document has none. The name \<^verbatim>\<open>_id\<close> is refused, since no JSON value equals the
  ObjectId of the matched document. Every other name is a path or an operator of the
  server's update language and is left to \<open>path_update\<close>.
\<close>

definition plain_name :: "string \<Rightarrow> bool" where
  "plain_name k = (k \<noteq> [] \<and> hd k \<noteq> CHR ''$'' \<and> CHR ''.'' \<notin> set k)"

fun set_field :: "string \<Rightarrow> bson \<Rightarrow> document \<Rightarrow> document" where
  "set_field k v [] = [(k, v)]"
| "set_field k v ((k', v') # d) = (if k' = k then (k, v) # d else (k', v') # set_field k v d)"

fun set_fields :: "(string \<times> json) list \<Rightarrow> document \<Rightarrow> document" where
  "set_fields [] d = d"
| "set_fields ((k, v) # fs) d = set_fields fs (set_field k (Json v) d)"

definition immutable_id :: string where
  "immutable_id =
     ''Performing an update on the path '_id' would modify the immutable field '_id'' @ [CHR 0x27]"

definition apply_set :: "env \<Rightarrow> document \<Rightarrow> (string \<times> json) list \<Rightarrow> error + document" where
  "apply_set env d fs =
     (if list_all (\<lambda>(k, v). plain_name k) fs then
        (if ''_id'' \<in> set (map fst fs) then Inl (MongoServerError immutable_id)
         else Inr (set_fields fs d))
      else (case path_update env d fs of
              Inl m \<Rightarrow> Inl (MongoServerError m)
            | Inr d' \<Rightarrow> Inr d'))"

text \<open>
  \<^verbatim>\<open>findOneAndUpdate({_id: i}, {$set: fs}, {returnDocument: "after"})\<close>: the first item
  with that identifier is updated and returned as it is afterwards; without a match nothing
  is changed and the value is \<^verbatim>\<open>null\<close> (there is no \<^verbatim>\<open>upsert\<close> option).
\<close>

fun update_first :: "env \<Rightarrow> oid \<Rightarrow> (string \<times> json) list \<Rightarrow> item list \<Rightarrow> error + (item option \<times> item list)" where
  "update_first env i fs [] = Inr (None, [])"
| "update_first env i fs ((j, d) # xs) =
     (if j = i then
        (case apply_set env d fs of
           Inl err \<Rightarrow> Inl err
         | Inr d' \<Rightarrow> Inr (Some (j, d'), (j, d') # xs))
      else
        (case update_first env i fs xs of
           Inl err \<Rightarrow> Inl err
         | Inr (r, xs') \<Rightarrow> Inr (r, (j, d) # xs')))"

definition findOneAndUpdate :: "env \<Rightarrow> oid \<Rightarrow> (string \<times> json) list \<Rightarrow> world \<Rightarrow> (error + item option) \<times> world" where
  "findOneAndUpdate env i fs w =
     (let w' = w\<lparr>calls := calls w @ [FindOneAndUpdate i fs]\<rparr>
      in case update_first env i fs (todos w) of
           Inl err \<Rightarrow> (Inl err, w')
         | Inr (r, xs) \<Rightarrow> (Inr r, w'\<lparr>todos := xs\<rparr>))"

text \<open>\<^verbatim>\<open>deleteOne({_id: i})\<close>: the first item with that identifier is removed, if there is one.\<close>

fun delete_first :: "oid \<Rightarrow> item list \<Rightarrow> item list" where
  "delete_first i [] = []"
| "delete_first i ((j, d) # xs) = (if j = i then xs else (j, d) # delete_first i xs)"

definition deleteOne :: "oid \<Rightarrow> world \<Rightarrow> world" where
  "deleteOne i w = w\<lparr>calls := calls w @ [DeleteOne i], todos := delete_first i (todos w)\<rparr>"

text \<open>\<^verbatim>\<open>find().toArray()\<close>: all items.\<close>

definition find_all :: "world \<Rightarrow> item list \<times> world" where
  "find_all w = (todos w, w\<lparr>calls := calls w @ [Find]\<rparr>)"

section \<open>Request handler (\<^verbatim>\<open>server.js\<close>): the routes\<close>

text \<open>
  \<^verbatim>\<open>res.writeHead(s, {"Content-Type": "application/json"}); res.end(JSON.stringify(b))\<close>,
  and the body \<^verbatim>\<open>{ error: err.message }\<close> of the three \<^verbatim>\<open>catch\<close> blocks.
\<close>

definition send :: "nat \<Rightarrow> payload \<Rightarrow> response" where
  "send s b = \<lparr>status = s, content_type = ''application/json'', body = b\<rparr>"

definition caught :: "error \<Rightarrow> response" where
  "caught err = send 400 (Plain (JObj [(''error'', JStr (message err))]))"

text \<open>\<^verbatim>\<open>query.get("id")\<close> followed by \<^verbatim>\<open>if (!id) throw new Error("Missing ID")\<close>.\<close>

definition get_id :: "request \<Rightarrow> error + string" where
  "get_id req =
     (case searchParams req of
        Inl m \<Rightarrow> Inl (TypeError m)
      | Inr query \<Rightarrow>
          (case map_of query ''id'' of
             None \<Rightarrow> Inl (Error ''Missing ID'')
           | Some given \<Rightarrow> if given = [] then Inl (Error ''Missing ID'') else Inr given))"

text \<open>
  The result of a route is the response written, or \<open>Inl\<close> of the exception with which the
  handler's promise rejects without a response, together with the state afterwards.
\<close>

definition post_todos :: "env \<Rightarrow> request \<Rightarrow> world \<Rightarrow> (error + response) \<times> world" where
  "post_todos env req w =
     (case parseBody env req of
        Inl err \<Rightarrow> (Inr (caught err), w)
      | Inr data \<Rightarrow>
          (case get_title data of
             Inl err \<Rightarrow> (Inr (caught err), w)
           | Inr title \<Rightarrow>
               (case insertOne (generated_id env) (new_todo title (now env)) w of
                  (Inl err, w') \<Rightarrow> (Inr (caught err), w')
                | (Inr result, w') \<Rightarrow> (Inr (send 201 (InsertOneResult result)), w'))))"

definition put_todos :: "env \<Rightarrow> request \<Rightarrow> world \<Rightarrow> (error + response) \<times> world" where
  "put_todos env req w =
     (case get_id req of
        Inl err \<Rightarrow> (Inr (caught err), w)
      | Inr given \<Rightarrow>
          (case parseBody env req of
             Inl err \<Rightarrow> (Inr (caught err), w)
           | Inr data \<Rightarrow>
               (case ObjectId given of
                  Inl err \<Rightarrow> (Inr (caught err), w)
                | Inr i \<Rightarrow>
                    (case findOneAndUpdate env i (spread data) w of
                       (Inl err, w') \<Rightarrow> (Inr (caught err), w')
                     | (Inr val, w') \<Rightarrow> (Inr (send 200 (Found val)), w')))))"

definition delete_todos :: "request \<Rightarrow> world \<Rightarrow> (error + response) \<times> world" where
  "delete_todos req w =
     (case get_id req of
        Inl err \<Rightarrow> (Inr (caught err), w)
      | Inr given \<Rightarrow>
          (case ObjectId given of
             Inl err \<Rightarrow> (Inr (caught err), w)
           | Inr i \<Rightarrow>
               (Inr (send 200 (Plain (JObj [(''message'', JStr ''Todo deleted'')]))), deleteOne i w)))"

text \<open>
  The callback of \<^verbatim>\<open>http.createServer\<close>. Its first two statements read the handle and
  take the collection from it, before any route is looked at: with the handle unset,
  \<^verbatim>\<open>db.collection\<close> throws outside every \<^verbatim>\<open>try\<close>.
\<close>

definition handler :: "env \<Rightarrow> request \<Rightarrow> world \<Rightarrow> (error + response) \<times> world" where
  "handler env req w =
     (case getDB w of
        None \<Rightarrow> (Inl (TypeError ''Cannot read properties of undefined (reading 'collection')''), w)
      | Some database \<Rightarrow>
          if req_method req = ''GET'' \<and> pathname req = ''/'' then
            (Inr (send 200 (Plain (JObj [(''message'', JStr ''Node.js To-Do API running...'')]))), w)
          else if req_method req = ''GET'' \<and> pathname req = ''/todos'' then
            (case find_all w of (allTodos, w') \<Rightarrow> (Inr (send 200 (Listing allTodos)), w'))
          else if req_method req = ''POST'' \<and> pathname req = ''/todos'' then post_todos env req w
          else if req_method req = ''PUT'' \<and> pathname req = ''/todos'' then put_todos env req w
          else if req_method req = ''DELETE'' \<and> pathname req = ''/todos'' then delete_todos req w
          else (Inr (send 404 (Plain (JObj [(''error'', JStr ''Route not found'')]))), w))"

text \<open>
  The routing table as the specification lists it (section 4.2): the five pairs of method
  and path that have a behaviour of their own. It is used only to state which requests are
  outside the table.
\<close>

definition spec_routes :: "(string \<times> string) list" where
  "spec_routes =
     [(''GET'', ''/''), (''GET'', ''/todos''), (''POST'', ''/todos''),
      (''PUT'', ''/todos''), (''DELETE'', ''/todos'')]"

section \<open>A sample runtime, collection and requests\<close>

text \<open>
  The general results below hold for every runtime. To run them on concrete requests, this
  table fixes what \<^verbatim>\<open>JSON.parse\<close> returns on the handful of texts that the examples
  send; no example sends any other text. The sample runtime is never asked for a path
  update.
\<close>

definition sample_parse :: "string \<Rightarrow> string + json" where
  \<open>sample_parse s =
     (if s = ''{}'' then Inr (JObj [])
      else if s = ''{"completed": true}'' then Inr (JObj [(''completed'', JBool True)])
      else if s = ''{"title": "Buy milk", "completed": true}''
        then Inr (JObj [(''title'', JStr ''Buy milk''), (''completed'', JBool True)])
      else if s = ''{"title": ""}'' then Inr (JObj [(''title'', JStr [])])
      else if s = ''{"title": "Buy milk"}'' then Inr (JObj [(''title'', JStr ''Buy milk'')])
      else if s = ''{"createdAt": "2001-01-01"}'' then Inr (JObj [(''createdAt'', JStr ''2001-01-01'')])
      else if s = ''{"_id": "64b7f0c2a1d3e4f5a6b7c8d9"}'' then Inr (JObj [(''_id'', JStr ''64b7f0c2a1d3e4f5a6b7c8d9'')])
      else if s = ''{'' then Inl ''Unexpected end of JSON input''
      else Inl ''Unexpected token'')\<close>

definition sample_id :: oid where
  "sample_id = [100, 183, 240, 194, 161, 211, 228, 245, 166, 183, 200, 217]"

definition other_id :: oid where
  "other_id = [100, 183, 240, 194, 161, 211, 228, 245, 166, 183, 200, 218]"

definition sample_env :: env where
  "sample_env =
     \<lparr>JSON_parse = sample_parse,
      path_update = (\<lambda>d fs. Inl ''path updates are not part of the sample''),
      now = 2500,
      generated_id = other_id\<rparr>"

definition milk :: document where
  "milk = [(''title'', Json (JStr ''Buy milk'')), (''completed'', Json (JBool False)), (''createdAt'', Date 1000)]"

definition sample_world :: world where
  "sample_world =
     \<lparr>db = Some ''todo_api'', todos = [(sample_id, milk)], calls = [],
      console = [Info ''MongoDB connected'']\<rparr>"

definition sample_request :: "string \<Rightarrow> string \<Rightarrow> (string \<times> string) list \<Rightarrow> string \<Rightarrow> request" where
  "sample_request m p query text =
     \<lparr>req_method = m, pathname = p, searchParams = Inr query, chunks = [text], arrival = 2000\<rparr>"

section \<open>Connection manager: properties\<close>

lemma connect_all_failed:
  "getDB w = None \<Longrightarrow> list_all (\<lambda>a. a \<noteq> None) as \<Longrightarrow>
   \<exists>w'. connect_all as w = Inr w' \<and> getDB w' = None \<and> todos w' = todos w"
proof (induction as arbitrary: w)
  case Nil
  then show ?case by simp
next
  case (Cons a as)
  from Cons.prems obtain err where a: "a = Some err" by auto
  let ?w = "w\<lparr>console := console w @ [Failure ''DB connection error:'' err]\<rparr>"
  have "getDB ?w = None" using Cons.prems(1) by (simp add: getDB_def)
  moreover have "list_all (\<lambda>a. a \<noteq> None) as" using Cons.prems(2) by simp
  ultimately obtain w' where "connect_all as ?w = Inr w'" "getDB w' = None" "todos w' = todos ?w"
    using Cons.IH by blast
  then show ?case using a by (simp add: connectDB_def)
qed

text \<open>
  Claim C9. \<^verbatim>\<open>connectDB\<close> never rejects: whatever the connection attempt does, the call
  returns normally. When the attempt fails, the error is written to the console and the
  stored handle is left as it was; so, starting from the freshly loaded module, after any
  number of failed calls \<^verbatim>\<open>getDB\<close> still returns the unset value, while a successful call
  stores the handle.
\<close>

theorem connectDB_fire_and_forget:
  "(\<exists>w'. connectDB attempt w = Inr w') \<and>
   (\<forall>err. attempt = Some err \<longrightarrow>
      connectDB attempt w = Inr (w\<lparr>console := console w @ [Failure ''DB connection error:'' err]\<rparr>)) \<and>
   getDB (module_start stored) = None \<and>
   (list_all (\<lambda>a. a \<noteq> None) as \<longrightarrow>
      (\<exists>w'. connect_all as (module_start stored) = Inr w' \<and> getDB w' = None)) \<and>
   (attempt = None \<longrightarrow> (\<exists>w'. connectDB attempt w = Inr w' \<and> getDB w' = Some ''todo_api''))"
proof -
  have start: "getDB (module_start stored) = None"
    by (simp add: getDB_def module_start_def)
  have "list_all (\<lambda>a. a \<noteq> None) as \<longrightarrow>
      (\<exists>w'. connect_all as (module_start stored) = Inr w' \<and> getDB w' = None)"
    using connect_all_failed [OF start] by blast
  moreover have "\<exists>w'. connectDB attempt w = Inr w'"
    by (cases attempt) (simp_all add: connectDB_def)
  moreover have "attempt = None \<longrightarrow> (\<exists>w'. connectDB attempt w = Inr w' \<and> getDB w' = Some ''todo_api'')"
    by (simp add: connectDB_def getDB_def)
  moreover have "\<forall>err. attempt = Some err \<longrightarrow>
      connectDB attempt w = Inr (w\<lparr>console := console w @ [Failure ''DB connection error:'' err]\<rparr>)"
    by (simp add: connectDB_def)
  ultimately show ?thesis using start by blast
qed

theorem connectDB_fire_and_forget_witness:
  "list_all (\<lambda>a. a \<noteq> None)
     [Some (MongoNetworkError ''connect ECONNREFUSED''), Some (MongoNetworkError ''connect ECONNREFUSED'')] \<and>
   (\<exists>w'. connect_all
      [Some (MongoNetworkError ''connect ECONNREFUSED''), Some (MongoNetworkError ''connect ECONNREFUSED'')]
      (module_start []) = Inr w' \<and> getDB w' = None) \<and>
   connectDB (Some (MongoNetworkError ''connect ECONNREFUSED'')) (module_start []) =
     Inr ((module_start [])\<lparr>console := console (module_start []) @
       [Failure ''DB connection error:'' (MongoNetworkError ''connect ECONNREFUSED'')]\<rparr>)"
proof -
  have failed: "list_all (\<lambda>a. a \<noteq> None)
     [Some (MongoNetworkError ''connect ECONNREFUSED''), Some (MongoNetworkError ''connect ECONNREFUSED'')]"
    by simp
  from failed connectDB_fire_and_forget
    [of "Some (MongoNetworkError ''connect ECONNREFUSED'')" "module_start []" "[]"
        "[Some (MongoNetworkError ''connect ECONNREFUSED''), Some (MongoNetworkError ''connect ECONNREFUSED'')]"]
  show ?thesis by blast
qed

section \<open>Facts about the helpers and the driver operations\<close>

lemma ObjectId_sample: "ObjectId ''64b7f0c2a1d3e4f5a6b7c8d9'' = Inr sample_id"
  by (simp add: ObjectId_def hex_digit_def hex_value_def sample_id_def)

lemma ObjectId_other: "ObjectId ''64b7f0c2a1d3e4f5a6b7c8da'' = Inr other_id"
  by (simp add: ObjectId_def hex_digit_def hex_value_def other_id_def)

lemma ObjectId_short:
  "ObjectId ''abc'' = Inl (BSONTypeError
     ''Argument passed in must be a string of 12 bytes or a string of 24 hex characters or an integer'')"
  by (simp add: ObjectId_def)

lemma ObjectId_nonempty: "ObjectId given = Inr i \<Longrightarrow> given \<noteq> []"
  by (auto simp: ObjectId_def)

lemma ids_differ: "other_id \<noteq> sample_id"
  by (simp add: other_id_def sample_id_def)

lemma falsy_values: "(\<not> truthy t) = (t \<in> {JStr [], JBool False, JNum 0, JNull})"
  by (cases t) auto

lemma set_field_lookup: "map_of (set_field k v d) k' = (if k' = k then Some v else map_of d k')"
  by (induction d) auto

lemma set_fields_lookup:
  "map_of (set_fields fs d) k = (case map_of (rev fs) k of None \<Rightarrow> map_of d k | Some v \<Rightarrow> Some (Json v))"
proof (induction fs arbitrary: d)
  case Nil
  then show ?case by simp
next
  case (Cons f fs)
  obtain k' v' where f: "f = (k', v')" by (cases f)
  show ?case using Cons.IH [of "set_field k' (Json v') d"]
    by (simp add: f set_field_lookup map_add_def split: option.splits)
qed

lemma apply_set_plain:
  "list_all (\<lambda>(k, v). plain_name k) fs \<Longrightarrow> ''_id'' \<notin> set (map fst fs) \<Longrightarrow>
   apply_set env d fs = Inr (set_fields fs d)"
  by (simp add: apply_set_def)

lemma update_first_miss:
  "i \<notin> set (map fst xs) \<Longrightarrow> update_first env i fs xs = Inr (None, xs)"
  by (induction xs) auto

lemma update_first_hit:
  "map_of xs i = Some d \<Longrightarrow> apply_set env d fs = Inr d' \<Longrightarrow>
   \<exists>xs'. update_first env i fs xs = Inr (Some (i, d'), xs') \<and> map_of xs' i = Some d' \<and>
         (\<forall>j. j \<noteq> i \<longrightarrow> map_of xs' j = map_of xs j) \<and> map fst xs' = map fst xs"
proof (induction xs)
  case Nil
  then show ?case by simp
next
  case (Cons x xs)
  obtain j e where x: "x = (j, e)" by (cases x)
  show ?case
  proof (cases "j = i")
    case True
    with Cons.prems x show ?thesis by simp
  next
    case False
    with Cons.prems x have "map_of xs i = Some d" by simp
    from Cons.IH [OF this Cons.prems(2)] obtain xs' where
      "update_first env i fs xs = Inr (Some (i, d'), xs')" "map_of xs' i = Some d'"
      "\<forall>j. j \<noteq> i \<longrightarrow> map_of xs' j = map_of xs j" "map fst xs' = map fst xs" by blast
    with False x show ?thesis by simp
  qed
qed

lemma update_first_hit_error:
  "map_of xs i = Some d \<Longrightarrow> apply_set env d fs = Inl err \<Longrightarrow> update_first env i fs xs = Inl err"
  by (induction xs) (auto split: if_splits)

lemma update_first_hit_result:
  assumes "update_first env i fs xs = Inr (r, xs')" and "map_of xs i = Some d"
  shows "\<exists>d'. apply_set env d fs = Inr d' \<and> map_of xs' i = Some d'"
proof (cases "apply_set env d fs")
  case (Inl err)
  from update_first_hit_error [OF assms(2) Inl] assms(1) show ?thesis by simp
next
  case (Inr d')
  from update_first_hit [OF assms(2) Inr] assms(1) Inr show ?thesis by auto
qed

lemma update_first_frame:
  "update_first env i fs xs = Inr (r, xs') \<Longrightarrow>
   map fst xs' = map fst xs \<and> (\<forall>j. j \<noteq> i \<longrightarrow> map_of xs' j = map_of xs j)"
proof (induction xs arbitrary: r xs')
  case Nil
  then show ?case by simp
next
  case (Cons x xs)
  obtain j e where x: "x = (j, e)" by (cases x)
  show ?case
  proof (cases "j = i")
    case True
    with Cons.prems x show ?thesis by (auto split: sum.splits)
  next
    case False
    with Cons.prems x obtain ys where ys: "update_first env i fs xs = Inr (r, ys)" "xs' = (j, e) # ys"
      by (auto split: sum.splits)
    from Cons.IH [OF ys(1)] ys(2) x show ?thesis by simp
  qed
qed

lemma delete_first_other: "j \<noteq> i \<Longrightarrow> map_of (delete_first i xs) j = map_of xs j"
  by (induction xs) auto

lemma delete_first_miss: "i \<notin> set (map fst xs) \<Longrightarrow> delete_first i xs = xs"
  by (induction xs) auto

lemma delete_first_filter:
  "distinct (map fst xs) \<Longrightarrow> delete_first i xs = filter (\<lambda>x. fst x \<noteq> i) xs"
proof (induction xs)
  case Nil
  then show ?case by simp
next
  case (Cons x xs)
  obtain j e where x: "x = (j, e)" by (cases x)
  show ?case
  proof (cases "j = i")
    case True
    with Cons.prems x have "i \<notin> set (map fst xs)" by simp
    then have "filter (\<lambda>x. fst x \<noteq> i) xs = xs" by (induction xs) auto
    with True x show ?thesis by simp
  next
    case False
    with Cons x show ?thesis by simp
  qed
qed

lemma delete_first_gone:
  "distinct (map fst xs) \<Longrightarrow> map_of (delete_first i xs) i = None"
  by (auto simp: delete_first_filter map_of_eq_None_iff)

lemma get_id_present:
  "searchParams req = Inr query \<Longrightarrow> map_of query ''id'' = Some given \<Longrightarrow> given \<noteq> [] \<Longrightarrow>
   get_id req = Inr given"
  by (simp add: get_id_def)

lemma get_id_missing:
  "searchParams req = Inr query \<Longrightarrow> map_of query ''id'' = None \<or> map_of query ''id'' = Some [] \<Longrightarrow>
   get_id req = Inl (Error ''Missing ID'')"
  by (auto simp: get_id_def)

section \<open>Facts about the routes\<close>

lemma handler_post:
  "getDB w = Some h \<Longrightarrow> req_method req = ''POST'' \<Longrightarrow> pathname req = ''/todos'' \<Longrightarrow>
   handler env req w = post_todos env req w"
  by (simp add: handler_def)

lemma handler_put:
  "getDB w = Some h \<Longrightarrow> req_method req = ''PUT'' \<Longrightarrow> pathname req = ''/todos'' \<Longrightarrow>
   handler env req w = put_todos env req w"
  by (simp add: handler_def)

lemma handler_delete:
  "getDB w = Some h \<Longrightarrow> req_method req = ''DELETE'' \<Longrightarrow> pathname req = ''/todos'' \<Longrightarrow>
   handler env req w = delete_todos req w"
  by (simp add: handler_def)

lemma post_todos_inserts:
  "parseBody env req = Inr data \<Longrightarrow> get_title data = Inr t \<Longrightarrow>
   generated_id env \<notin> set (map fst (todos w)) \<Longrightarrow>
   post_todos env req w =
     (Inr (send 201 (InsertOneResult (generated_id env))),
      w\<lparr>calls := calls w @ [InsertOne (new_todo t (now env))],
        todos := todos w @ [(generated_id env, new_todo t (now env))]\<rparr>)"
  by (simp add: post_todos_def insertOne_def Let_def)

text \<open>
  The unique index on \<^verbatim>\<open>_id\<close> is kept by every request, and no request touches the
  stored handle.
\<close>

lemma handler_keeps_ids_distinct:
  assumes "handler env req w = (out, w')" and "distinct (map fst (todos w))"
  shows "distinct (map fst (todos w'))"
proof (cases "getDB w")
  case None
  with assms show ?thesis by (simp add: handler_def)
next
  case (Some h)
  consider
      (post) "req_method req = ''POST''" "pathname req = ''/todos''"
    | (put) "req_method req = ''PUT''" "pathname req = ''/todos''"
    | (delete) "req_method req = ''DELETE''" "pathname req = ''/todos''"
    | (other) "todos w' = todos w"
    using assms(1) Some by (auto simp: handler_def find_all_def split: if_splits)
  then show ?thesis
  proof cases
    case post
    from assms handler_post [OF Some post] show ?thesis
      by (auto simp: post_todos_def insertOne_def Let_def split: sum.splits if_splits)
  next
    case put
    from assms(1) handler_put [OF Some put]
    have "todos w' = todos w \<or> (\<exists>j fs r. update_first env j fs (todos w) = Inr (r, todos w'))"
      by (auto simp: put_todos_def findOneAndUpdate_def Let_def split: sum.splits prod.splits)
    with assms(2) update_first_frame show ?thesis by metis
  next
    case delete
    from assms(1) handler_delete [OF Some delete]
    have "todos w' = todos w \<or> (\<exists>j. todos w' = delete_first j (todos w))"
      by (auto simp: delete_todos_def deleteOne_def split: sum.splits)
    with assms(2) delete_first_filter [OF assms(2)] show ?thesis
      by (auto simp: distinct_map_filter)
  next
    case other
    with assms(2) show ?thesis by simp
  qed
qed

lemma handler_keeps_handle: "handler env req w = (out, w') \<Longrightarrow> db w' = db w"
  by (auto simp: handler_def find_all_def post_todos_def put_todos_def delete_todos_def
      insertOne_def findOneAndUpdate_def deleteOne_def Let_def
      split: option.splits if_splits sum.splits prod.splits)

section \<open>The sample at work\<close>

lemmas sample_defs =
  sample_env_def sample_world_def sample_request_def sample_parse_def milk_def

lemmas route_defs =
  handler_def getDB_def post_todos_def put_todos_def delete_todos_def get_id_def parseBody_def
  insertOne_def findOneAndUpdate_def deleteOne_def apply_set_def plain_name_def new_todo_def
  send_def caught_def immutable_id_def Let_def

lemma sample_handle: "getDB sample_world = Some ''todo_api''"
  by (simp add: getDB_def sample_world_def)

lemma sample_fresh: "generated_id sample_env \<notin> set (map fst (todos sample_world))"
  by (simp add: sample_env_def sample_world_def ids_differ)

lemma sample_distinct: "distinct (map fst (todos sample_world))"
  by (simp add: sample_world_def)

section \<open>Update: partial field overwrite\<close>

text \<open>
  Claim C1, as the code has it. Take a \<^verbatim>\<open>PUT /todos?id=<id>\<close> that addresses a stored
  item, with a body that parses to an object whose keys are plain top-level field names.
  When \<^verbatim>\<open>_id\<close> is not among the keys, the answer is 200 with the item as it is after the
  update; in that item every field named in the body has the body's value and every other
  field has the value it had before (for a key list with a repeated key the last occurrence
  counts, which is what \<open>map_of (rev fs)\<close> reads); no other item changes and no item is
  added or removed. When \<^verbatim>\<open>_id\<close> is among the keys, the answer is 400 with the server's
  message and the collection is as it was.
\<close>

theorem put_overwrites_named_fields:
  assumes "getDB w = Some h" and "req_method req = ''PUT''" and "pathname req = ''/todos''"
    and "searchParams req = Inr query" and "map_of query ''id'' = Some given"
    and "ObjectId given = Inr i" and "map_of (todos w) i = Some d"
    and "parseBody env req = Inr (JObj fs)"
    and "list_all (\<lambda>(k, v). plain_name k) fs"
  shows "(''_id'' \<notin> set (map fst fs) \<longrightarrow>
           (\<exists>d' w'. handler env req w = (Inr (send 200 (Found (Some (i, d')))), w') \<and>
              map_of (todos w') i = Some d' \<and>
              (\<forall>k. map_of d' k =
                 (case map_of (rev fs) k of None \<Rightarrow> map_of d k | Some v \<Rightarrow> Some (Json v))) \<and>
              (\<forall>j. j \<noteq> i \<longrightarrow> map_of (todos w') j = map_of (todos w) j) \<and>
              map fst (todos w') = map fst (todos w))) \<and>
         (''_id'' \<in> set (map fst fs) \<longrightarrow>
           (\<exists>w'. handler env req w = (Inr (send 400 (Plain (JObj [(''error'', JStr immutable_id)]))), w') \<and>
              todos w' = todos w))"
proof -
  have id: "get_id req = Inr given"
    using get_id_present [OF assms(4,5)] ObjectId_nonempty [OF assms(6)] by simp
  have overwrite: "\<exists>d' w'. handler env req w = (Inr (send 200 (Found (Some (i, d')))), w') \<and>
              map_of (todos w') i = Some d' \<and>
              (\<forall>k. map_of d' k =
                 (case map_of (rev fs) k of None \<Rightarrow> map_of d k | Some v \<Rightarrow> Some (Json v))) \<and>
              (\<forall>j. j \<noteq> i \<longrightarrow> map_of (todos w') j = map_of (todos w) j) \<and>
              map fst (todos w') = map fst (todos w)"
    if no_id: "''_id'' \<notin> set (map fst fs)"
  proof -
    have set: "apply_set env d fs = Inr (set_fields fs d)"
      using apply_set_plain [OF assms(9) no_id] .
    from update_first_hit [OF assms(7) set] obtain xs' where
      xs': "update_first env i fs (todos w) = Inr (Some (i, set_fields fs d), xs')"
        "map_of xs' i = Some (set_fields fs d)"
        "\<forall>j. j \<noteq> i \<longrightarrow> map_of xs' j = map_of (todos w) j"
        "map fst xs' = map fst (todos w)"
      by blast
    have "handler env req w =
            (Inr (send 200 (Found (Some (i, set_fields fs d)))),
             w\<lparr>calls := calls w @ [FindOneAndUpdate i fs], todos := xs'\<rparr>)"
      using handler_put [OF assms(1-3)] id assms(6,8) xs'(1)
      by (simp add: put_todos_def findOneAndUpdate_def Let_def)
    with xs'(2-4) show ?thesis by (simp add: set_fields_lookup)
  qed
  have refuse: "\<exists>w'. handler env req w =
        (Inr (send 400 (Plain (JObj [(''error'', JStr immutable_id)]))), w') \<and> todos w' = todos w"
    if with_id: "''_id'' \<in> set (map fst fs)"
  proof -
    have "apply_set env d fs = Inl (MongoServerError immutable_id)"
      using assms(9) with_id by (simp add: apply_set_def)
    from update_first_hit_error [OF assms(7) this]
    have "handler env req w =
            (Inr (send 400 (Plain (JObj [(''error'', JStr immutable_id)]))),
             w\<lparr>calls := calls w @ [FindOneAndUpdate i fs]\<rparr>)"
      using handler_put [OF assms(1-3)] id assms(6,8)
      by (simp add: put_todos_def findOneAndUpdate_def caught_def Let_def)
    then show ?thesis by simp
  qed
  from overwrite refuse show ?thesis by blast
qed

theorem put_overwrites_named_fields_witness:
  \<open>\<exists>d' w'. handler sample_env
       (sample_request ''PUT'' ''/todos'' [(''id'', ''64b7f0c2a1d3e4f5a6b7c8d9'')] ''{"completed": true}'')
       sample_world = (Inr (send 200 (Found (Some (sample_id, d')))), w') \<and>
     map_of (todos w') sample_id = Some d' \<and>
     map_of d' ''completed'' = Some (Json (JBool True)) \<and>
     map_of d' ''title'' = Some (Json (JStr ''Buy milk'')) \<and>
     map_of d' ''createdAt'' = Some (Date 1000)\<close>
proof -
  let ?req = \<open>sample_request ''PUT'' ''/todos'' [(''id'', ''64b7f0c2a1d3e4f5a6b7c8d9'')] ''{"completed": true}''\<close>
  have 1: "req_method ?req = ''PUT''" and 2: "pathname ?req = ''/todos''"
    and 3: "searchParams ?req = Inr [(''id'', ''64b7f0c2a1d3e4f5a6b7c8d9'')]"
    by (simp_all add: sample_request_def)
  have 4: "map_of [(''id'', ''64b7f0c2a1d3e4f5a6b7c8d9'')] ''id'' = Some ''64b7f0c2a1d3e4f5a6b7c8d9''"
    by simp
  have 5: "map_of (todos sample_world) sample_id = Some milk"
    by (simp add: sample_world_def)
  have 6: "parseBody sample_env ?req = Inr (JObj [(''completed'', JBool True)])"
    by (simp add: parseBody_def sample_request_def sample_env_def sample_parse_def)
  have 7: "list_all (\<lambda>(k, v). plain_name k) [(''completed'', JBool True)]"
    and 8: "''_id'' \<notin> set (map fst [(''completed'', JBool True)])"
    by (simp_all add: plain_name_def)
  from put_overwrites_named_fields [OF sample_handle 1 2 3 4 ObjectId_sample 5 6 7] 8
  obtain d' w' where r: "handler sample_env ?req sample_world = (Inr (send 200 (Found (Some (sample_id, d')))), w')"
    "map_of (todos w') sample_id = Some d'"
    "\<forall>k. map_of d' k =
       (case map_of (rev [(''completed'', JBool True)]) k of None \<Rightarrow> map_of milk k | Some v \<Rightarrow> Some (Json v))"
    by blast
  from r(3) have "map_of d' ''completed'' = Some (Json (JBool True))"
    "map_of d' ''title'' = Some (Json (JStr ''Buy milk''))"
    "map_of d' ''createdAt'' = Some (Date 1000)"
    by (simp_all add: milk_def)
  with r(1,2) show ?thesis by blast
qed

text \<open>
  The claim as stated covers every field map, but a body that names \<^verbatim>\<open>_id\<close> (a client
  sending the whole item back, say) is refused by the server: the answer is 400 and the item
  keeps all its fields.
\<close>

theorem put_rejects_id_field_counterexample:
  \<open>map_of (todos sample_world) sample_id = Some milk \<and>
   parseBody sample_env
     (sample_request ''PUT'' ''/todos'' [(''id'', ''64b7f0c2a1d3e4f5a6b7c8d9'')] ''{"_id": "64b7f0c2a1d3e4f5a6b7c8d9"}'') =
     Inr (JObj [(''_id'', JStr ''64b7f0c2a1d3e4f5a6b7c8d9'')]) \<and>
   handler sample_env
     (sample_request ''PUT'' ''/todos'' [(''id'', ''64b7f0c2a1d3e4f5a6b7c8d9'')] ''{"_id": "64b7f0c2a1d3e4f5a6b7c8d9"}'')
     sample_world =
     (Inr (send 400 (Plain (JObj [(''error'', JStr immutable_id)]))),
      sample_world\<lparr>calls := [FindOneAndUpdate sample_id [(''_id'', JStr ''64b7f0c2a1d3e4f5a6b7c8d9'')]]\<rparr>)\<close>
  by (simp add: route_defs sample_defs ObjectId_sample)

section \<open>Create: which fields come from the body\<close>

text \<open>
  Claim C2, as the code has it. For every \<^verbatim>\<open>POST /todos\<close> whose body parses to a value
  other than \<^verbatim>\<open>null\<close>, with the handle set and a generated identifier that is not yet
  stored, the answer is 201 with the acknowledgement and exactly one item is appended. Its
  \<^verbatim>\<open>title\<close> is the body's title when that is truthy and the placeholder otherwise; its
  \<^verbatim>\<open>completed\<close> is false and its \<^verbatim>\<open>createdAt\<close> is the clock reading, whatever else the
  body contains.
\<close>

theorem post_defaults_only_title_from_body:
  assumes "getDB w = Some h" and "req_method req = ''POST''" and "pathname req = ''/todos''"
    and "parseBody env req = Inr data" and "data \<noteq> JNull"
    and "generated_id env \<notin> set (map fst (todos w))"
  shows "\<exists>t w'. get_title data = Inr t \<and>
           handler env req w = (Inr (send 201 (InsertOneResult (generated_id env))), w') \<and>
           todos w' = todos w @
             [(generated_id env,
               [(''title'', Json (or_else t (JStr ''Untitled''))),
                (''completed'', Json (JBool False)),
                (''createdAt'', Date (now env))])]"
proof -
  from assms(5) obtain t where t: "get_title data = Inr t" by (cases data) auto
  from post_todos_inserts [OF assms(4) t assms(6)] handler_post [OF assms(1-3)] t
  show ?thesis by (simp add: new_todo_def)
qed

theorem post_defaults_only_title_from_body_witness:
  \<open>\<exists>t w'. get_title (JObj [(''title'', JStr ''Buy milk''), (''completed'', JBool True)]) = Inr t \<and>
     handler sample_env
       (sample_request ''POST'' ''/todos'' [] ''{"title": "Buy milk", "completed": true}'') sample_world =
       (Inr (send 201 (InsertOneResult other_id)), w') \<and>
     todos w' = [(sample_id, milk),
       (other_id, [(''title'', Json (JStr ''Buy milk'')), (''completed'', Json (JBool False)),
                   (''createdAt'', Date 2500)])]\<close>
proof -
  let ?req = \<open>sample_request ''POST'' ''/todos'' [] ''{"title": "Buy milk", "completed": true}''\<close>
  have 1: "req_method ?req = ''POST''" and 2: "pathname ?req = ''/todos''"
    by (simp_all add: sample_request_def)
  have 3: "parseBody sample_env ?req = Inr (JObj [(''title'', JStr ''Buy milk''), (''completed'', JBool True)])"
    by (simp add: parseBody_def sample_request_def sample_env_def sample_parse_def)
  have 4: "JObj [(''title'', JStr ''Buy milk''), (''completed'', JBool True)] \<noteq> JNull" by simp
  from post_defaults_only_title_from_body [OF sample_handle 1 2 3 4 sample_fresh]
  show ?thesis by (simp add: sample_env_def sample_world_def)
qed

text \<open>
  The claim as stated lets a \<^verbatim>\<open>completed\<close> value of the body through. The handler does
  not read it: a body with \<^verbatim>\<open>completed: true\<close> is stored with \<^verbatim>\<open>completed: false\<close>.
\<close>

theorem post_ignores_completed_counterexample:
  \<open>parseBody sample_env (sample_request ''POST'' ''/todos'' [] ''{"completed": true}'') =
     Inr (JObj [(''completed'', JBool True)]) \<and>
   handler sample_env (sample_request ''POST'' ''/todos'' [] ''{"completed": true}'') sample_world =
     (Inr (send 201 (InsertOneResult other_id)),
      sample_world\<lparr>
        calls := [InsertOne [(''title'', Json (JStr ''Untitled'')), (''completed'', Json (JBool False)),
                             (''createdAt'', Date 2500)]],
        todos := [(sample_id, milk),
                  (other_id, [(''title'', Json (JStr ''Untitled'')), (''completed'', Json (JBool False)),
                              (''createdAt'', Date 2500)])]\<rparr>)\<close>
  by (simp add: route_defs sample_defs ids_differ)

text \<open>
  Claim C3. For every \<^verbatim>\<open>POST /todos\<close> whose body is empty or is the text \<^verbatim>\<open>{}\<close>, in a
  runtime whose \<^verbatim>\<open>JSON.parse\<close> reads \<^verbatim>\<open>{}\<close> as the empty object, with the handle set, a
  generated identifier that is not yet stored and a clock that has not gone back since the
  request arrived: the answer is 201 with the insertion acknowledgement, and the inserted
  item has the placeholder title, \<^verbatim>\<open>completed\<close> false and a \<^verbatim>\<open>createdAt\<close> at or after the
  arrival time.
\<close>

theorem post_empty_body_defaults:
  assumes "getDB w = Some h" and "req_method req = ''POST''" and "pathname req = ''/todos''"
    and "concat (chunks req) = [] \<or> concat (chunks req) = ''{}''"
    and "JSON_parse env ''{}'' = Inr (JObj [])"
    and "generated_id env \<notin> set (map fst (todos w))"
    and "arrival req \<le> now env"
  shows "\<exists>t w'. handler env req w = (Inr (send 201 (InsertOneResult (generated_id env))), w') \<and>
           todos w' = todos w @
             [(generated_id env,
               [(''title'', Json (JStr ''Untitled'')),
                (''completed'', Json (JBool False)),
                (''createdAt'', Date t)])] \<and>
           arrival req \<le> t"
proof -
  from assms(4,5) have p: "parseBody env req = Inr (JObj [])"
    by (auto simp: parseBody_def Let_def)
  have t: "get_title (JObj []) = Inr None" by simp
  from post_todos_inserts [OF p t assms(6)] handler_post [OF assms(1-3)] assms(7)
  show ?thesis by (simp add: new_todo_def)
qed

theorem post_empty_body_defaults_witness:
  "\<exists>t w'. handler sample_env (sample_request ''POST'' ''/todos'' [] []) sample_world =
       (Inr (send 201 (InsertOneResult other_id)), w') \<and>
     todos w' = [(sample_id, milk),
       (other_id, [(''title'', Json (JStr ''Untitled'')), (''completed'', Json (JBool False)),
                   (''createdAt'', Date t)])] \<and>
     2000 \<le> t"
proof -
  let ?req = "sample_request ''POST'' ''/todos'' [] []"
  have 1: "req_method ?req = ''POST''" and 2: "pathname ?req = ''/todos''"
    and 3: "concat (chunks ?req) = [] \<or> concat (chunks ?req) = ''{}''"
    by (simp_all add: sample_request_def)
  have 4: "JSON_parse sample_env ''{}'' = Inr (JObj [])"
    by (simp add: sample_env_def sample_parse_def)
  have 5: "arrival ?req \<le> now sample_env"
    by (simp add: sample_request_def sample_env_def)
  from post_empty_body_defaults [OF sample_handle 1 2 3 4 sample_fresh 5]
  show ?thesis by (simp add: sample_env_def sample_world_def sample_request_def)
qed

text \<open>
  Claim C10. For every \<^verbatim>\<open>POST /todos\<close> whose body is an object with a \<^verbatim>\<open>title\<close>, with
  the handle set and a generated identifier that is not yet stored: the inserted item's title
  is the placeholder when the supplied title is the empty string, \<^verbatim>\<open>false\<close>, \<^verbatim>\<open>0\<close> or
  \<^verbatim>\<open>null\<close>, and is the supplied title in every other case.
\<close>

theorem post_falsy_title_replaced:
  assumes "getDB w = Some h" and "req_method req = ''POST''" and "pathname req = ''/todos''"
    and "parseBody env req = Inr (JObj kvs)" and "map_of kvs ''title'' = Some t"
    and "generated_id env \<notin> set (map fst (todos w))"
  shows "\<exists>d w'. handler env req w = (Inr (send 201 (InsertOneResult (generated_id env))), w') \<and>
           todos w' = todos w @ [(generated_id env, d)] \<and>
           map_of d ''title'' =
             Some (Json (if t \<in> {JStr [], JBool False, JNum 0, JNull} then JStr ''Untitled'' else t))"
proof -
  have t: "get_title (JObj kvs) = Inr (Some t)" using assms(5) by simp
  have "or_else (Some t) (JStr ''Untitled'') =
        (if t \<in> {JStr [], JBool False, JNum 0, JNull} then JStr ''Untitled'' else t)"
    using falsy_values [of t] by (cases "truthy t") (simp_all del: insert_iff)
  with post_todos_inserts [OF assms(4) t assms(6)] handler_post [OF assms(1-3)]
  show ?thesis by (simp add: new_todo_def del: insert_iff)
qed

theorem post_falsy_title_replaced_witness:
  \<open>\<exists>d w'. handler sample_env (sample_request ''POST'' ''/todos'' [] ''{"title": ""}'') sample_world =
       (Inr (send 201 (InsertOneResult other_id)), w') \<and>
     todos w' = [(sample_id, milk), (other_id, d)] \<and>
     map_of d ''title'' = Some (Json (JStr ''Untitled''))\<close>
proof -
  let ?req = \<open>sample_request ''POST'' ''/todos'' [] ''{"title": ""}''\<close>
  have 1: "req_method ?req = ''POST''" and 2: "pathname ?req = ''/todos''"
    by (simp_all add: sample_request_def)
  have 3: "parseBody sample_env ?req = Inr (JObj [(''title'', JStr [])])"
    by (simp add: parseBody_def sample_request_def sample_env_def sample_parse_def)
  have 4: "map_of [(''title'', JStr [])] ''title'' = Some (JStr [])" by simp
  from post_falsy_title_replaced [OF sample_handle 1 2 3 4 sample_fresh]
  show ?thesis by (simp add: sample_env_def sample_world_def)
qed

section \<open>The creation time under later requests\<close>

text \<open>
  Claim C4, as the code has it. Take any request and any item that is stored before and
  after it, in a collection with unique identifiers. Unless the request is a \<^verbatim>\<open>PUT\<close> whose
  body names \<^verbatim>\<open>createdAt\<close> (or a field name that is not a plain top-level name), the
  item's \<^verbatim>\<open>createdAt\<close> is the same afterwards.
\<close>

theorem createdAt_kept_unless_put_names_it:
  assumes "handler env req w = (out, w')"
    and "distinct (map fst (todos w))"
    and "map_of (todos w) i = Some d" and "map_of (todos w') i = Some d'"
    and "req_method req = ''PUT'' \<longrightarrow>
           (\<forall>data. parseBody env req = Inr data \<longrightarrow>
              list_all (\<lambda>(k, v). plain_name k) (spread data) \<and>
              ''createdAt'' \<notin> set (map fst (spread data)))"
  shows "map_of d' ''createdAt'' = map_of d ''createdAt''"
proof (cases "getDB w")
  case None
  with assms(1,3,4) show ?thesis by (simp add: handler_def)
next
  case (Some h)
  consider
      (post) "req_method req = ''POST''" "pathname req = ''/todos''"
    | (put) "req_method req = ''PUT''" "pathname req = ''/todos''"
    | (delete) "req_method req = ''DELETE''" "pathname req = ''/todos''"
    | (other) "todos w' = todos w"
    using assms(1) Some by (auto simp: handler_def find_all_def split: if_splits)
  then show ?thesis
  proof cases
    case post
    from assms(1) handler_post [OF Some post]
    have "todos w' = todos w \<or> (\<exists>x. todos w' = todos w @ [x])"
      by (auto simp: post_todos_def insertOne_def Let_def split: sum.splits if_splits)
    with assms(3,4) show ?thesis by auto
  next
    case put
    from assms(1) handler_put [OF Some put]
    have "todos w' = todos w \<or>
          (\<exists>data j r. parseBody env req = Inr data \<and>
             update_first env j (spread data) (todos w) = Inr (r, todos w'))"
      by (auto simp: put_todos_def findOneAndUpdate_def Let_def split: sum.splits prod.splits)
    then show ?thesis
    proof
      assume "todos w' = todos w"
      with assms(3,4) show ?thesis by simp
    next
      assume "\<exists>data j r. parseBody env req = Inr data \<and>
             update_first env j (spread data) (todos w) = Inr (r, todos w')"
      then obtain data j r where data: "parseBody env req = Inr data"
        and upd: "update_first env j (spread data) (todos w) = Inr (r, todos w')" by blast
      from assms(5) put(1) data have plain: "list_all (\<lambda>(k, v). plain_name k) (spread data)"
        and keep: "''createdAt'' \<notin> set (map fst (spread data))" by blast+
      show ?thesis
      proof (cases "j = i")
        case False
        with update_first_frame [OF upd] assms(3,4) show ?thesis by auto
      next
        case True
        from update_first_hit_result [OF upd [unfolded True] assms(3)] assms(4)
        have res: "apply_set env d (spread data) = Inr d'" by auto
        from keep have none: "map_of (rev (spread data)) ''createdAt'' = None"
          by (simp add: map_of_eq_None_iff)
        from res plain have "d' = set_fields (spread data) d"
          by (auto simp: apply_set_def split: if_splits)
        then show ?thesis by (simp add: set_fields_lookup none)
      qed
    qed
  next
    case delete
    from assms(1) handler_delete [OF Some delete]
    have "todos w' = todos w \<or> (\<exists>j. todos w' = delete_first j (todos w))"
      by (auto simp: delete_todos_def deleteOne_def split: sum.splits)
    then show ?thesis
    proof
      assume "todos w' = todos w"
      with assms(3,4) show ?thesis by simp
    next
      assume "\<exists>j. todos w' = delete_first j (todos w)"
      then obtain j where j: "todos w' = delete_first j (todos w)" by blast
      show ?thesis
      proof (cases "j = i")
        case True
        with j delete_first_gone [OF assms(2), of i] assms(4) show ?thesis by simp
      next
        case False
        with j delete_first_other [of i j "todos w"] assms(3,4) show ?thesis by simp
      qed
    qed
  next
    case other
    with assms(3,4) show ?thesis by simp
  qed
qed

theorem createdAt_kept_unless_put_names_it_witness:
  \<open>\<exists>out w' d'.
     handler sample_env
       (sample_request ''PUT'' ''/todos'' [(''id'', ''64b7f0c2a1d3e4f5a6b7c8d9'')] ''{"completed": true}'')
       sample_world = (out, w') \<and>
     map_of (todos w') sample_id = Some d' \<and>
     map_of d' ''completed'' = Some (Json (JBool True)) \<and>
     map_of d' ''createdAt'' = map_of milk ''createdAt''\<close>
proof -
  let ?req = \<open>sample_request ''PUT'' ''/todos'' [(''id'', ''64b7f0c2a1d3e4f5a6b7c8d9'')] ''{"completed": true}''\<close>
  let ?d = "[(''title'', Json (JStr ''Buy milk'')), (''completed'', Json (JBool True)), (''createdAt'', Date 1000)]"
  let ?w = "sample_world\<lparr>calls := [FindOneAndUpdate sample_id [(''completed'', JBool True)]],
                         todos := [(sample_id, ?d)]\<rparr>"
  have run: "handler sample_env ?req sample_world = (Inr (send 200 (Found (Some (sample_id, ?d)))), ?w)"
    by (simp add: route_defs sample_defs ObjectId_sample)
  have 1: "map_of (todos sample_world) sample_id = Some milk"
    by (simp add: sample_world_def)
  have 2: "map_of (todos ?w) sample_id = Some ?d" by simp
  have 3: "req_method ?req = ''PUT'' \<longrightarrow>
           (\<forall>data. parseBody sample_env ?req = Inr data \<longrightarrow>
              list_all (\<lambda>(k, v). plain_name k) (spread data) \<and>
              ''createdAt'' \<notin> set (map fst (spread data)))"
    by (simp add: parseBody_def sample_request_def sample_env_def sample_parse_def plain_name_def)
  from createdAt_kept_unless_put_names_it [OF run sample_distinct 1 2 3] run 2
  show ?thesis by simp
qed

text \<open>
  The claim as stated says no \<^verbatim>\<open>PUT\<close> alters \<^verbatim>\<open>createdAt\<close>. A \<^verbatim>\<open>PUT\<close> whose body
  carries \<^verbatim>\<open>createdAt\<close> overwrites it like any other field: the date becomes the string
  that was sent.
\<close>

theorem put_overwrites_createdAt_counterexample:
  \<open>map_of milk ''createdAt'' = Some (Date 1000) \<and>
   handler sample_env
     (sample_request ''PUT'' ''/todos'' [(''id'', ''64b7f0c2a1d3e4f5a6b7c8d9'')] ''{"createdAt": "2001-01-01"}'')
     sample_world =
     (Inr (send 200 (Found (Some (sample_id,
        [(''title'', Json (JStr ''Buy milk'')), (''completed'', Json (JBool False)),
         (''createdAt'', Json (JStr ''2001-01-01''))])))),
      sample_world\<lparr>
        calls := [FindOneAndUpdate sample_id [(''createdAt'', JStr ''2001-01-01'')]],
        todos := [(sample_id,
          [(''title'', Json (JStr ''Buy milk'')), (''completed'', Json (JBool False)),
           (''createdAt'', Json (JStr ''2001-01-01''))])]\<rparr>)\<close>
  by (simp add: route_defs sample_defs ObjectId_sample)

section \<open>Update without an identifier or without a match\<close>

text \<open>
  Claim C5. With the handle set, every \<^verbatim>\<open>PUT /todos\<close> whose query has no \<^verbatim>\<open>id\<close>
  parameter (or an empty one) is answered 400 with the message \<^verbatim>\<open>Missing ID\<close> and leaves
  the state as it was, no driver operation included; and every \<^verbatim>\<open>PUT /todos?id=<id>\<close> whose
  \<^verbatim>\<open>id\<close> matches no stored item (because it is no identifier at all, or is the identifier
  of no item) leaves the collection exactly as it was: no item is created.
\<close>

theorem put_missing_id_or_no_match:
  assumes "getDB w = Some h" and "req_method req = ''PUT''" and "pathname req = ''/todos''"
    and "searchParams req = Inr query"
  shows "((map_of query ''id'' = None \<or> map_of query ''id'' = Some []) \<longrightarrow>
            handler env req w = (Inr (send 400 (Plain (JObj [(''error'', JStr ''Missing ID'')]))), w)) \<and>
         (\<forall>given. map_of query ''id'' = Some given \<and>
            (\<forall>i. ObjectId given = Inr i \<longrightarrow> i \<notin> set (map fst (todos w))) \<longrightarrow>
            todos (snd (handler env req w)) = todos w)"
proof (intro conjI impI allI)
  assume "map_of query ''id'' = None \<or> map_of query ''id'' = Some []"
  from get_id_missing [OF assms(4) this] handler_put [OF assms(1-3)]
  show "handler env req w = (Inr (send 400 (Plain (JObj [(''error'', JStr ''Missing ID'')]))), w)"
    by (simp add: put_todos_def caught_def)
next
  fix given
  assume a: "map_of query ''id'' = Some given \<and>
            (\<forall>i. ObjectId given = Inr i \<longrightarrow> i \<notin> set (map fst (todos w)))"
  have "todos (snd (put_todos env req w)) = todos w"
  proof (cases "get_id req")
    case (Inl err)
    then show ?thesis by (simp add: put_todos_def)
  next
    case (Inr g)
    with assms(4) a have g: "g = given" by (auto simp: get_id_def split: if_splits)
    show ?thesis
    proof (cases "parseBody env req")
      case (Inl err)
      with Inr show ?thesis by (simp add: put_todos_def)
    next
      case data: (Inr data)
      show ?thesis
      proof (cases "ObjectId given")
        case (Inl err)
        with Inr g data show ?thesis by (simp add: put_todos_def)
      next
        case oid: (Inr i)
        with a have "i \<notin> set (map fst (todos w))" by blast
        from update_first_miss [OF this] Inr g data oid show ?thesis
          by (simp add: put_todos_def findOneAndUpdate_def Let_def)
      qed
    qed
  qed
  with handler_put [OF assms(1-3)] show "todos (snd (handler env req w)) = todos w" by simp
qed

theorem put_missing_id_or_no_match_witness:
  \<open>handler sample_env (sample_request ''PUT'' ''/todos'' [] ''{"completed": true}'') sample_world =
     (Inr (send 400 (Plain (JObj [(''error'', JStr ''Missing ID'')]))), sample_world) \<and>
   other_id \<notin> set (map fst (todos sample_world)) \<and>
   todos (snd (handler sample_env
     (sample_request ''PUT'' ''/todos'' [(''id'', ''64b7f0c2a1d3e4f5a6b7c8da'')] ''{"completed": true}'')
     sample_world)) = todos sample_world\<close>
proof -
  let ?r1 = \<open>sample_request ''PUT'' ''/todos'' [] ''{"completed": true}''\<close>
  let ?r2 = \<open>sample_request ''PUT'' ''/todos'' [(''id'', ''64b7f0c2a1d3e4f5a6b7c8da'')] ''{"completed": true}''\<close>
  have a: "req_method ?r1 = ''PUT''" "pathname ?r1 = ''/todos''" "searchParams ?r1 = Inr []"
    by (simp_all add: sample_request_def)
  have b: "req_method ?r2 = ''PUT''" "pathname ?r2 = ''/todos''"
    "searchParams ?r2 = Inr [(''id'', ''64b7f0c2a1d3e4f5a6b7c8da'')]"
    by (simp_all add: sample_request_def)
  have fresh: "other_id \<notin> set (map fst (todos sample_world))"
    using sample_fresh by (simp add: sample_env_def)
  have miss: "\<forall>i. ObjectId ''64b7f0c2a1d3e4f5a6b7c8da'' = Inr i \<longrightarrow> i \<notin> set (map fst (todos sample_world))"
    using fresh by (simp add: ObjectId_other)
  from put_missing_id_or_no_match [OF sample_handle a, of sample_env]
  have 1: "handler sample_env ?r1 sample_world =
     (Inr (send 400 (Plain (JObj [(''error'', JStr ''Missing ID'')]))), sample_world)" by simp
  from put_missing_id_or_no_match [OF sample_handle b, of sample_env] miss
  have 2: "todos (snd (handler sample_env ?r2 sample_world)) = todos sample_world" by simp
  from 1 2 fresh show ?thesis by blast
qed

section \<open>Delete\<close>

text \<open>
  Claim C6, as the code has it. With the handle set and unique identifiers, take a
  \<^verbatim>\<open>DELETE /todos?id=<id>\<close> with a non-empty \<^verbatim>\<open>id\<close>. When \<^verbatim>\<open>id\<close> is accepted by the
  \<^verbatim>\<open>ObjectId\<close> constructor, the answer is 200 with \<^verbatim>\<open>{"message": "Todo deleted"}\<close>, the
  collection afterwards is the collection before without the item of that identifier, in
  the same order, and it is unchanged when no item has that identifier. When the constructor
  refuses \<^verbatim>\<open>id\<close>, the answer is 400 with the constructor's message and nothing changes.
\<close>

theorem delete_removes_matching_item:
  assumes "getDB w = Some h" and "req_method req = ''DELETE''" and "pathname req = ''/todos''"
    and "searchParams req = Inr query" and "map_of query ''id'' = Some given" and "given \<noteq> []"
    and "distinct (map fst (todos w))"
  shows "(\<forall>i. ObjectId given = Inr i \<longrightarrow>
            (\<exists>w'. handler env req w =
                     (Inr (send 200 (Plain (JObj [(''message'', JStr ''Todo deleted'')]))), w') \<and>
                   todos w' = filter (\<lambda>x. fst x \<noteq> i) (todos w) \<and>
                   (i \<notin> set (map fst (todos w)) \<longrightarrow> todos w' = todos w))) \<and>
         (\<forall>err. ObjectId given = Inl err \<longrightarrow>
            handler env req w = (Inr (send 400 (Plain (JObj [(''error'', JStr (message err))]))), w))"
proof -
  have id: "get_id req = Inr given" using get_id_present [OF assms(4-6)] .
  have miss: "i \<notin> set (map fst (todos w)) \<Longrightarrow> filter (\<lambda>x. fst x \<noteq> i) (todos w) = todos w" for i
    using delete_first_miss [of i "todos w"] delete_first_filter [OF assms(7), of i] by simp
  show ?thesis
    using handler_delete [OF assms(1-3)] id delete_first_filter [OF assms(7)] miss
    by (auto simp: delete_todos_def deleteOne_def caught_def)
qed

theorem delete_removes_matching_item_witness:
  "\<exists>w'. handler sample_env
       (sample_request ''DELETE'' ''/todos'' [(''id'', ''64b7f0c2a1d3e4f5a6b7c8d9'')] [])
       (sample_world\<lparr>todos := [(sample_id, milk), (other_id, milk)]\<rparr>) =
       (Inr (send 200 (Plain (JObj [(''message'', JStr ''Todo deleted'')]))), w') \<and>
     todos w' = [(other_id, milk)]"
proof -
  let ?req = "sample_request ''DELETE'' ''/todos'' [(''id'', ''64b7f0c2a1d3e4f5a6b7c8d9'')] []"
  let ?w = "sample_world\<lparr>todos := [(sample_id, milk), (other_id, milk)]\<rparr>"
  have 0: "getDB ?w = Some ''todo_api''" by (simp add: getDB_def sample_world_def)
  have 1: "req_method ?req = ''DELETE''" and 2: "pathname ?req = ''/todos''"
    and 3: "searchParams ?req = Inr [(''id'', ''64b7f0c2a1d3e4f5a6b7c8d9'')]"
    by (simp_all add: sample_request_def)
  have 4: "map_of [(''id'', ''64b7f0c2a1d3e4f5a6b7c8d9'')] ''id'' = Some ''64b7f0c2a1d3e4f5a6b7c8d9''"
    and 5: "''64b7f0c2a1d3e4f5a6b7c8d9'' \<noteq> []" by simp_all
  have 6: "distinct (map fst (todos ?w))" using ids_differ by simp
  from delete_removes_matching_item [OF 0 1 2 3 4 5 6, of sample_env] ObjectId_sample ids_differ
  show ?thesis by simp
qed

text \<open>
  The claim as stated promises 200 whenever no item matches. An \<^verbatim>\<open>id\<close> such as \<^verbatim>\<open>abc\<close>
  matches no item and is answered 400.
\<close>

theorem delete_malformed_id_counterexample:
  "todos sample_world = [(sample_id, milk)] \<and> ObjectId ''abc'' \<noteq> Inr sample_id \<and>
   handler sample_env (sample_request ''DELETE'' ''/todos'' [(''id'', ''abc'')] []) sample_world =
     (Inr (send 400 (Plain (JObj [(''error'', JStr
        ''Argument passed in must be a string of 12 bytes or a string of 24 hex characters or an integer'')]))),
      sample_world)"
  by (simp add: route_defs sample_defs ObjectId_short)

section \<open>Body parsing and malformed bodies\<close>

text \<open>
  Claim C7, as the code has it. An empty body parses as the empty object (in a runtime whose
  \<^verbatim>\<open>JSON.parse\<close> reads \<^verbatim>\<open>{}\<close> so). With the handle set, a \<^verbatim>\<open>POST /todos\<close>, or a
  \<^verbatim>\<open>PUT /todos\<close> that carries a non-empty \<^verbatim>\<open>id\<close>, whose non-empty body is refused by
  \<^verbatim>\<open>JSON.parse\<close> with message \<open>m\<close> is answered 400 with \<^verbatim>\<open>{"error": m}\<close>, and the state
  is as it was: no driver operation, no write. A \<^verbatim>\<open>PUT /todos\<close> whose \<^verbatim>\<open>id\<close> check
  throws is answered 400 with the message of that exception, whatever its body is, and the
  state is as it was.
\<close>

theorem malformed_body_is_400:
  "(concat (chunks req) = [] \<and> JSON_parse env ''{}'' = Inr (JObj []) \<longrightarrow>
      parseBody env req = Inr (JObj [])) \<and>
   (getDB w = Some h \<and> pathname req = ''/todos'' \<and>
    concat (chunks req) \<noteq> [] \<and> JSON_parse env (concat (chunks req)) = Inl m \<and>
    (req_method req = ''POST'' \<or> (req_method req = ''PUT'' \<and> get_id req = Inr given)) \<longrightarrow>
      handler env req w = (Inr (send 400 (Plain (JObj [(''error'', JStr m)]))), w)) \<and>
   (getDB w = Some h \<and> pathname req = ''/todos'' \<and> req_method req = ''PUT'' \<and>
    get_id req = Inl err \<longrightarrow>
      handler env req w = (Inr (send 400 (Plain (JObj [(''error'', JStr (message err))]))), w))"
proof (intro conjI impI)
  assume "concat (chunks req) = [] \<and> JSON_parse env ''{}'' = Inr (JObj [])"
  then show "parseBody env req = Inr (JObj [])" by (simp add: parseBody_def)
next
  assume a: "getDB w = Some h \<and> pathname req = ''/todos'' \<and>
    concat (chunks req) \<noteq> [] \<and> JSON_parse env (concat (chunks req)) = Inl m \<and>
    (req_method req = ''POST'' \<or> (req_method req = ''PUT'' \<and> get_id req = Inr given))"
  then have p: "parseBody env req = Inl (SyntaxError m)"
    by (simp add: parseBody_def Let_def del: concat_eq_Nil_conv)
  from a consider "req_method req = ''POST''" | "req_method req = ''PUT''" "get_id req = Inr given"
    by blast
  then show "handler env req w = (Inr (send 400 (Plain (JObj [(''error'', JStr m)]))), w)"
  proof cases
    case 1
    with a p handler_post [of w h req env] show ?thesis by (simp add: post_todos_def caught_def)
  next
    case 2
    with a p handler_put [of w h req env] show ?thesis by (simp add: put_todos_def caught_def)
  qed
next
  assume "getDB w = Some h \<and> pathname req = ''/todos'' \<and> req_method req = ''PUT'' \<and>
    get_id req = Inl err"
  with handler_put [of w h req env]
  show "handler env req w = (Inr (send 400 (Plain (JObj [(''error'', JStr (message err))]))), w)"
    by (simp add: put_todos_def caught_def)
qed

theorem malformed_body_is_400_witness:
  \<open>parseBody sample_env (sample_request ''POST'' ''/todos'' [] []) = Inr (JObj []) \<and>
   handler sample_env (sample_request ''POST'' ''/todos'' [] ''{'') sample_world =
     (Inr (send 400 (Plain (JObj [(''error'', JStr ''Unexpected end of JSON input'')]))), sample_world) \<and>
   handler sample_env (sample_request ''PUT'' ''/todos'' [(''id'', ''64b7f0c2a1d3e4f5a6b7c8d9'')] ''{'') sample_world =
     (Inr (send 400 (Plain (JObj [(''error'', JStr ''Unexpected end of JSON input'')]))), sample_world)\<close>
proof -
  let ?r0 = "sample_request ''POST'' ''/todos'' [] []"
  let ?r1 = "sample_request ''POST'' ''/todos'' [] ''{''"
  let ?r2 = "sample_request ''PUT'' ''/todos'' [(''id'', ''64b7f0c2a1d3e4f5a6b7c8d9'')] ''{''"
  have p: "JSON_parse sample_env ''{}'' = Inr (JObj [])"
    "JSON_parse sample_env ''{'' = Inl ''Unexpected end of JSON input''"
    by (simp_all add: sample_env_def sample_parse_def)
  have 0: "concat (chunks ?r0) = []" by (simp add: sample_request_def)
  have 1: "pathname ?r1 = ''/todos''" "concat (chunks ?r1) = ''{''" "req_method ?r1 = ''POST''"
    by (simp_all add: sample_request_def)
  have 2: "pathname ?r2 = ''/todos''" "concat (chunks ?r2) = ''{''" "req_method ?r2 = ''PUT''"
    "get_id ?r2 = Inr ''64b7f0c2a1d3e4f5a6b7c8d9''"
    by (simp_all add: sample_request_def get_id_def)
  from malformed_body_is_400 [of ?r0 sample_env] p(1) 0
  have a: "parseBody sample_env ?r0 = Inr (JObj [])" by simp
  from malformed_body_is_400 [of ?r1 sample_env sample_world "''todo_api''" "''Unexpected end of JSON input''"]
    sample_handle p(2) 1
  have b: "handler sample_env ?r1 sample_world =
     (Inr (send 400 (Plain (JObj [(''error'', JStr ''Unexpected end of JSON input'')]))), sample_world)"
    by simp
  from malformed_body_is_400 [of ?r2 sample_env sample_world "''todo_api''" "''Unexpected end of JSON input''"
      "''64b7f0c2a1d3e4f5a6b7c8d9''"]
    sample_handle p(2) 2
  have c: "handler sample_env ?r2 sample_world =
     (Inr (send 400 (Plain (JObj [(''error'', JStr ''Unexpected end of JSON input'')]))), sample_world)"
    by simp
  from a b c show ?thesis by blast
qed

text \<open>
  The claim as stated covers every \<^verbatim>\<open>PUT\<close>. A \<^verbatim>\<open>PUT /todos\<close> without \<^verbatim>\<open>id\<close> throws
  before the body is read: the 400 carries \<^verbatim>\<open>Missing ID\<close>, not the parser's message.
\<close>

theorem put_without_id_skips_parse_counterexample:
  \<open>JSON_parse sample_env ''{'' = Inl ''Unexpected end of JSON input'' \<and>
   handler sample_env (sample_request ''PUT'' ''/todos'' [] ''{'') sample_world =
     (Inr (send 400 (Plain (JObj [(''error'', JStr ''Missing ID'')]))), sample_world)\<close>
  by (simp add: route_defs sample_defs)

section \<open>Requests outside the routing table\<close>

text \<open>
  Claim C8. With the handle set, every request whose pair of method and path is not one of
  the five routes is answered 404 with \<^verbatim>\<open>{"error": "Route not found"}\<close>, and the state
  afterwards is the state before: no driver operation is issued.
\<close>

theorem unknown_route_is_404:
  assumes "getDB w = Some h" and "(req_method req, pathname req) \<notin> set spec_routes"
  shows "handler env req w = (Inr (send 404 (Plain (JObj [(''error'', JStr ''Route not found'')]))), w)"
  using assms by (auto simp: handler_def spec_routes_def)

theorem unknown_route_is_404_witness:
  "handler sample_env (sample_request ''PATCH'' ''/todos'' [] []) sample_world =
     (Inr (send 404 (Plain (JObj [(''error'', JStr ''Route not found'')]))), sample_world) \<and>
   handler sample_env (sample_request ''GET'' ''/unknown'' [] []) sample_world =
     (Inr (send 404 (Plain (JObj [(''error'', JStr ''Route not found'')]))), sample_world)"
proof -
  have 1: "(req_method (sample_request ''PATCH'' ''/todos'' [] []), pathname (sample_request ''PATCH'' ''/todos'' [] []))
             \<notin> set spec_routes"
    and 2: "(req_method (sample_request ''GET'' ''/unknown'' [] []), pathname (sample_request ''GET'' ''/unknown'' [] []))
             \<notin> set spec_routes"
    by (simp_all add: sample_request_def spec_routes_def)
  from unknown_route_is_404 [OF sample_handle 1, of sample_env]
    unknown_route_is_404 [OF sample_handle 2, of sample_env]
  show ?thesis by blast
qed

end
